theory Spec2Isabelle
  imports Complex_Main "HOL-Library.Multiset"
begin

section \<open>Data model of \<open>scripts/edit_json.py\<close>\<close>

text \<open>
  The script works on the dictionaries that \<open>json.load\<close> returns. A key of a dictionary
  may be absent, and the code either asks for it with \<open>.get\<close> (a default), tests it with
  \<open>in\<close>, or indexes it (a \<open>KeyError\<close> when absent). Every key the code touches is
  therefore an optional field. Beats are Python numbers; they are modelled by their
  values, comparisons being exact and the one subtraction of the script rounding as
  Python's floats do. Measure numbers, pitches and bpm are unbounded integers. A Python
  \<open>str\<close> is a \<open>string\<close>; the non-ASCII characters of the title annotations are written as
  their UTF-8 bytes.
\<close>

datatype error =
    KeyError string
  | FileNotFoundError
  | UnicodeDecodeError
  | JSONDecodeError
  | OSError
  | UsageError string

record timing_dict =
  beat :: "real option"
  duration :: "real option"

record note_dict =
  pitch :: "int option"
  timing :: "timing_dict option"
  velocity :: "int option"
  hand :: "string option"

text \<open>The keys \<open>"title"\<close>, \<open>"bpm"\<close> and \<open>"notes"\<close> of a song dictionary.\<close>

record song_dict =
  song_title :: "string option"
  song_bpm :: "int option"
  song_notes :: "note_dict list option"

text \<open>The attributes of a \<open>SongEditor\<close> instance.\<close>

record song_editor =
  self_song_data :: song_dict
  self_title :: string
  self_bpm :: int
  self_notes :: "note_dict list"

text \<open>\<open>SongEditor.__init__\<close>: the three \<open>.get\<close> calls with their defaults.\<close>

definition SongEditor :: "song_dict \<Rightarrow> song_editor" where
  "SongEditor d =
     \<lparr>self_song_data = d,
      self_title = (case song_title d of None \<Rightarrow> ''Untitled'' | Some t \<Rightarrow> t),
      self_bpm = (case song_bpm d of None \<Rightarrow> 120 | Some b \<Rightarrow> b),
      self_notes = (case song_notes d of None \<Rightarrow> [] | Some ns \<Rightarrow> ns)\<rparr>"

subsection \<open>Formatting integers in f-strings\<close>

definition digit_char :: "nat \<Rightarrow> char" where
  "digit_char d = ''0123456789'' ! d"

fun str_nat :: "nat \<Rightarrow> string" where
  "str_nat n = (if n < 10 then [digit_char n] else str_nat (n div 10) @ [digit_char (n mod 10)])"

declare str_nat.simps [simp del]

definition str_int :: "int \<Rightarrow> string" where
  "str_int i = (if i < 0 then CHR ''-'' # str_nat (nat (- i)) else str_nat (nat i))"

subsection \<open>Subtracting floats\<close>

text \<open>
  A number is modelled by its value. Python's \<open>float\<close> is the IEEE 754 binary64 format, and
  \<open>a - b\<close> on floats is the exact difference rounded to the nearest double, ties going to
  the even significand. \<open>double_round\<close> is that rounding: the grid around \<open>x\<close> has spacing
  \<open>2 ^ (e - 52)\<close> where \<open>2 ^ e \<le> |x| < 2 ^ (e + 1)\<close>, and \<open>e\<close> is not taken below -1022 (the
  subnormal numbers). It stands for the arithmetic below the overflow threshold \<open>2 ^ 1024\<close>,
  where Python returns \<open>inf\<close>; Python's exact integer subtraction gives the same values as
  long as the integers are below \<open>2 ^ 53\<close>.
\<close>

definition round_half_even :: "real \<Rightarrow> int" where
  "round_half_even q =
     (let f = \<lfloor>q\<rfloor> in
      if q - of_int f < 1 / 2 then f
      else if 1 / 2 < q - of_int f then f + 1
      else if even f then f else f + 1)"

definition double_exponent :: "real \<Rightarrow> int" where
  "double_exponent x = max \<lfloor>log 2 \<bar>x\<bar>\<rfloor> (- 1022)"

definition double_round :: "real \<Rightarrow> real" where
  "double_round x =
     (if x = 0 then 0
      else of_int (round_half_even (x / 2 powi (double_exponent x - 52)))
             * 2 powi (double_exponent x - 52))"

definition float_sub :: "real \<Rightarrow> real \<Rightarrow> real" where
  "float_sub a b = double_round (a - b)"

section \<open>Extraction\<close>

text \<open>
  The arithmetic at the head of \<open>extract_measures\<close>: \<open>first_measure_beats\<close>,
  \<open>start_beat\<close> and \<open>end_beat\<close>, as the pair handed on to \<open>_extract_beats\<close>.
\<close>

definition first_measure_beats :: "int \<Rightarrow> int option \<Rightarrow> int" where
  "first_measure_beats beats_per_measure pickup_beats =
     (case pickup_beats of Some p \<Rightarrow> p | None \<Rightarrow> beats_per_measure)"

definition measure_beat_range :: "int \<Rightarrow> int \<Rightarrow> int \<Rightarrow> int option \<Rightarrow> int \<times> int" where
  "measure_beat_range start_measure end_measure beats_per_measure pickup_beats =
     (let fmb = first_measure_beats beats_per_measure pickup_beats;
          start_beat = (if start_measure = 1 then 0
                        else fmb + (start_measure - 2) * beats_per_measure);
          end_beat = (if end_measure = 1 then fmb
                      else fmb + (end_measure - 1) * beats_per_measure)
      in (start_beat, end_beat))"

text \<open>
  The loop of \<open>_extract_beats\<close>. \<open>acc\<close> is \<open>extracted_notes\<close>; indexing
  \<open>note["timing"]["beat"]\<close> raises \<open>KeyError\<close> on the first note that lacks either key.
  The deep copy with its \<open>beat\<close> overwritten is a record update, and
  \<open>note_beat - start_beat\<close> is the subtraction of floats.
\<close>

fun extract_loop :: "real \<Rightarrow> real \<Rightarrow> note_dict list \<Rightarrow> note_dict list \<Rightarrow> error + note_dict list" where
  "extract_loop start_beat end_beat acc [] = Inr acc"
| "extract_loop start_beat end_beat acc (n # ns) =
     (case timing n of
        None \<Rightarrow> Inl (KeyError ''timing'')
      | Some t \<Rightarrow>
          (case beat t of
             None \<Rightarrow> Inl (KeyError ''beat'')
           | Some note_beat \<Rightarrow>
               if start_beat \<le> note_beat \<and> note_beat < end_beat
               then extract_loop start_beat end_beat
                      (acc @ [n\<lparr>timing := Some (t\<lparr>beat := Some (float_sub note_beat start_beat)\<rparr>)\<rparr>]) ns
               else extract_loop start_beat end_beat acc ns))"

text \<open>\<open>_extract_beats\<close> (an identifier cannot start with an underscore).\<close>

definition extract_beats_internal :: "song_editor \<Rightarrow> real \<Rightarrow> real \<Rightarrow> string \<Rightarrow> error + song_dict" where
  "extract_beats_internal ed start_beat end_beat title_suffix =
     (case extract_loop start_beat end_beat [] (self_notes ed) of
        Inl e \<Rightarrow> Inl e
      | Inr extracted_notes \<Rightarrow>
          Inr \<lparr>song_title = Some (self_title ed @ '' ('' @ title_suffix @ '')''),
               song_bpm = Some (self_bpm ed),
               song_notes = Some extracted_notes\<rparr>)"

text \<open>The title descriptor of \<open>extract_measures\<close>; its first two characters are U+5C0F U+7BC0.\<close>

definition measures_suffix :: "int \<Rightarrow> int \<Rightarrow> string" where
  "measures_suffix start_measure end_measure =
     [CHR 0xE5, CHR 0xB0, CHR 0x8F, CHR 0xE7, CHR 0xAF, CHR 0x80] @ '' ''
       @ str_int start_measure @ ''-'' @ str_int end_measure"

definition extract_measures :: "song_editor \<Rightarrow> int \<Rightarrow> int \<Rightarrow> int \<Rightarrow> int option \<Rightarrow> error + song_dict" where
  "extract_measures ed start_measure end_measure beats_per_measure pickup_beats =
     (case measure_beat_range start_measure end_measure beats_per_measure pickup_beats of
        (start_beat, end_beat) \<Rightarrow>
          extract_beats_internal ed (of_int start_beat) (of_int end_beat)
            (measures_suffix start_measure end_measure))"


section \<open>Filters\<close>

text \<open>
  The loop of \<open>filter_by_pitch\<close>: \<open>note["pitch"]\<close> is read for every note, then the two
  \<open>continue\<close> tests, then the append to \<open>filtered_notes\<close> (\<open>acc\<close>).
\<close>

fun filter_by_pitch_loop :: "int option \<Rightarrow> int option \<Rightarrow> note_dict list \<Rightarrow> note_dict list \<Rightarrow> error + note_dict list" where
  "filter_by_pitch_loop min_pitch max_pitch acc [] = Inr acc"
| "filter_by_pitch_loop min_pitch max_pitch acc (n # ns) =
     (case pitch n of
        None \<Rightarrow> Inl (KeyError ''pitch'')
      | Some p \<Rightarrow>
          if (case min_pitch of None \<Rightarrow> False | Some lo \<Rightarrow> p < lo)
          then filter_by_pitch_loop min_pitch max_pitch acc ns
          else if (case max_pitch of None \<Rightarrow> False | Some hi \<Rightarrow> p > hi)
          then filter_by_pitch_loop min_pitch max_pitch acc ns
          else filter_by_pitch_loop min_pitch max_pitch (acc @ [n]) ns)"

text \<open>\<open>', '.join(title_suffix)\<close>.\<close>

fun join_comma :: "string list \<Rightarrow> string" where
  "join_comma [] = []"
| "join_comma [x] = x"
| "join_comma (x # y # zs) = x @ '', '' @ join_comma (y # zs)"

text \<open>The list \<open>title_suffix\<close> of \<open>filter_by_pitch\<close>; the two signs are U+2265 and U+2264.\<close>

definition pitch_title_suffix :: "int option \<Rightarrow> int option \<Rightarrow> string list" where
  "pitch_title_suffix min_pitch max_pitch =
     (case min_pitch of None \<Rightarrow> [] | Some lo \<Rightarrow> [[CHR 0xE2, CHR 0x89, CHR 0xA5] @ str_int lo])
     @ (case max_pitch of None \<Rightarrow> [] | Some hi \<Rightarrow> [[CHR 0xE2, CHR 0x89, CHR 0xA4] @ str_int hi])"

definition pitch_title :: "string \<Rightarrow> int option \<Rightarrow> int option \<Rightarrow> string" where
  "pitch_title t min_pitch max_pitch =
     (if pitch_title_suffix min_pitch max_pitch \<noteq> []
      then t @ '' ('' @ join_comma (pitch_title_suffix min_pitch max_pitch) @ '')''
      else t)"

definition filter_by_pitch :: "song_editor \<Rightarrow> int option \<Rightarrow> int option \<Rightarrow> error + song_dict" where
  "filter_by_pitch ed min_pitch max_pitch =
     (case filter_by_pitch_loop min_pitch max_pitch [] (self_notes ed) of
        Inl e \<Rightarrow> Inl e
      | Inr filtered_notes \<Rightarrow>
          Inr \<lparr>song_title = Some (pitch_title (self_title ed) min_pitch max_pitch),
               song_bpm = Some (self_bpm ed),
               song_notes = Some filtered_notes\<rparr>)"

text \<open>
  The loops of \<open>filter_right_hand\<close> and \<open>filter_left_hand\<close>: the \<open>hand\<close> key decides when
  \<open>use_hand_field\<close> is set and the key is present, the pitch against the threshold
  otherwise.
\<close>

fun filter_right_hand_loop :: "int \<Rightarrow> bool \<Rightarrow> note_dict list \<Rightarrow> note_dict list \<Rightarrow> error + note_dict list" where
  "filter_right_hand_loop threshold use_hand_field acc [] = Inr acc"
| "filter_right_hand_loop threshold use_hand_field acc (n # ns) =
     (if use_hand_field \<and> hand n \<noteq> None
      then (if hand n = Some ''right''
            then filter_right_hand_loop threshold use_hand_field (acc @ [n]) ns
            else filter_right_hand_loop threshold use_hand_field acc ns)
      else (case pitch n of
              None \<Rightarrow> Inl (KeyError ''pitch'')
            | Some p \<Rightarrow>
                if p \<ge> threshold
                then filter_right_hand_loop threshold use_hand_field (acc @ [n]) ns
                else filter_right_hand_loop threshold use_hand_field acc ns))"

fun filter_left_hand_loop :: "int \<Rightarrow> bool \<Rightarrow> note_dict list \<Rightarrow> note_dict list \<Rightarrow> error + note_dict list" where
  "filter_left_hand_loop threshold use_hand_field acc [] = Inr acc"
| "filter_left_hand_loop threshold use_hand_field acc (n # ns) =
     (if use_hand_field \<and> hand n \<noteq> None
      then (if hand n = Some ''left''
            then filter_left_hand_loop threshold use_hand_field (acc @ [n]) ns
            else filter_left_hand_loop threshold use_hand_field acc ns)
      else (case pitch n of
              None \<Rightarrow> Inl (KeyError ''pitch'')
            | Some p \<Rightarrow>
                if p < threshold
                then filter_left_hand_loop threshold use_hand_field (acc @ [n]) ns
                else filter_left_hand_loop threshold use_hand_field acc ns))"

text \<open>The two title annotations: U+53F3 U+624B and U+5DE6 U+624B in parentheses.\<close>

definition right_hand_suffix :: string where
  "right_hand_suffix = '' ('' @ [CHR 0xE5, CHR 0x8F, CHR 0xB3, CHR 0xE6, CHR 0x89, CHR 0x8B] @ '')''"

definition left_hand_suffix :: string where
  "left_hand_suffix = '' ('' @ [CHR 0xE5, CHR 0xB7, CHR 0xA6, CHR 0xE6, CHR 0x89, CHR 0x8B] @ '')''"

definition filter_right_hand :: "song_editor \<Rightarrow> int \<Rightarrow> bool \<Rightarrow> error + song_dict" where
  "filter_right_hand ed threshold use_hand_field =
     (case filter_right_hand_loop threshold use_hand_field [] (self_notes ed) of
        Inl e \<Rightarrow> Inl e
      | Inr filtered_notes \<Rightarrow>
          Inr \<lparr>song_title = Some (self_title ed @ right_hand_suffix),
               song_bpm = Some (self_bpm ed),
               song_notes = Some filtered_notes\<rparr>)"

definition filter_left_hand :: "song_editor \<Rightarrow> int \<Rightarrow> bool \<Rightarrow> error + song_dict" where
  "filter_left_hand ed threshold use_hand_field =
     (case filter_left_hand_loop threshold use_hand_field [] (self_notes ed) of
        Inl e \<Rightarrow> Inl e
      | Inr filtered_notes \<Rightarrow>
          Inr \<lparr>song_title = Some (self_title ed @ left_hand_suffix),
               song_bpm = Some (self_bpm ed),
               song_notes = Some filtered_notes\<rparr>)"

section \<open>Loading and the command line\<close>

text \<open>
  \<open>load_json\<close> is \<open>open\<close> followed by \<open>json.load\<close>, both of the standard library. What they
  do with the input path is the input of the model: the file is missing, or it cannot be
  opened for another reason, or its bytes are not UTF-8, or its text is not JSON, or it
  parses to a song dictionary (a JSON object with values of the types the transforms
  expect). Nothing else happens in \<open>load_json\<close>.
\<close>

datatype input_file = Missing | Unreadable | Not_UTF8 | Not_JSON | Document song_dict

definition load_json :: "input_file \<Rightarrow> error + song_dict" where
  "load_json f =
     (case f of
        Missing \<Rightarrow> Inl FileNotFoundError
      | Unreadable \<Rightarrow> Inl OSError
      | Not_UTF8 \<Rightarrow> Inl UnicodeDecodeError
      | Not_JSON \<Rightarrow> Inl JSONDecodeError
      | Document d \<Rightarrow> Inr d)"











section \<open>Example songs\<close>

text \<open>Concrete notes and songs for the evaluations below: a note of duration 1 at a
  pitch and beat with an optional \<open>hand\<close> key, and a song holding a note list.\<close>

definition note_at :: "int \<Rightarrow> real \<Rightarrow> string option \<Rightarrow> note_dict" where
  "note_at p b h =
     \<lparr>pitch = Some p, timing = Some \<lparr>beat = Some b, duration = Some 1\<rparr>, velocity = None, hand = h\<rparr>"

definition song_of :: "note_dict list \<Rightarrow> song_dict" where
  "song_of ns = \<lparr>song_title = Some ''Etude'', song_bpm = Some 96, song_notes = Some ns\<rparr>"

definition mixed_hands :: song_editor where
  "mixed_hands = SongEditor (song_of [note_at 70 0 (Some ''right''), note_at 40 1 (Some ''left''),
                                       note_at 64 2 None, note_at 50 3 None])"

definition around_bar_two :: song_editor where
  "around_bar_two = SongEditor (song_of [note_at 59 3.5 None, note_at 60 4 (Some ''left''),
                                          note_at 62 7.5 None, note_at 64 8 None])"




definition untitled_song :: song_dict where
  "untitled_song = \<lparr>song_title = None, song_bpm = None, song_notes = Some [note_at 60 0 None]\<rparr>"

section \<open>The loops as list filters\<close>

text \<open>
  Each loop either raises on the first note whose key is missing or returns the notes
  it kept, in order. The predicates below say, note by note, what is read and what is
  kept; the lemmas after them show the loops compute \<open>filter\<close> with these predicates.
\<close>


definition note_beat :: "note_dict \<Rightarrow> real option" where
  "note_beat n = (case timing n of None \<Rightarrow> None | Some t \<Rightarrow> beat t)"




definition pitch_in_range :: "int option \<Rightarrow> int option \<Rightarrow> note_dict \<Rightarrow> bool" where
  "pitch_in_range min_pitch max_pitch n =
     (case pitch n of
        None \<Rightarrow> False
      | Some p \<Rightarrow> (case min_pitch of None \<Rightarrow> True | Some lo \<Rightarrow> lo \<le> p)
                  \<and> (case max_pitch of None \<Rightarrow> True | Some hi \<Rightarrow> p \<le> hi))"

definition reads_pitch :: "bool \<Rightarrow> note_dict \<Rightarrow> bool" where
  "reads_pitch use_hand_field n = (\<not> (use_hand_field \<and> hand n \<noteq> None))"

definition keeps_right :: "int \<Rightarrow> bool \<Rightarrow> note_dict \<Rightarrow> bool" where
  "keeps_right threshold use_hand_field n =
     (if use_hand_field \<and> hand n \<noteq> None then hand n = Some ''right''
      else (case pitch n of None \<Rightarrow> False | Some p \<Rightarrow> threshold \<le> p))"

definition keeps_left :: "int \<Rightarrow> bool \<Rightarrow> note_dict \<Rightarrow> bool" where
  "keeps_left threshold use_hand_field n =
     (if use_hand_field \<and> hand n \<noteq> None then hand n = Some ''left''
      else (case pitch n of None \<Rightarrow> False | Some p \<Rightarrow> p < threshold))"






lemma filter_by_pitch_loop_ok:
  "list_all (\<lambda>n. pitch n \<noteq> None) ns \<Longrightarrow>
   filter_by_pitch_loop mn mx acc ns = Inr (acc @ filter (pitch_in_range mn mx) ns)"
proof (induction ns arbitrary: acc)
  case Nil
  then show ?case by simp
next
  case (Cons n ns)
  then obtain p where p: "pitch n = Some p" by auto
  from Cons.prems have rest: "list_all (\<lambda>n. pitch n \<noteq> None) ns" by simp
  show ?case
    using p Cons.IH [OF rest]
    by (cases mn; cases mx) (simp_all add: pitch_in_range_def)
qed

lemma filter_by_pitch_loop_fail:
  "\<not> list_all (\<lambda>n. pitch n \<noteq> None) ns \<Longrightarrow>
   filter_by_pitch_loop mn mx acc ns = Inl (KeyError ''pitch'')"
proof (induction ns arbitrary: acc)
  case Nil
  then show ?case by simp
next
  case (Cons n ns)
  show ?case
  proof (cases "pitch n")
    case None
    then show ?thesis by simp
  next
    case (Some p)
    with Cons.prems have "\<not> list_all (\<lambda>n. pitch n \<noteq> None) ns" by simp
    from Cons.IH [OF this] Some show ?thesis by simp
  qed
qed

lemma filter_right_hand_loop_Cons:
  "filter_right_hand_loop thr uhf acc (n # ns) =
     (if reads_pitch uhf n \<and> pitch n = None then Inl (KeyError ''pitch'')
      else filter_right_hand_loop thr uhf (if keeps_right thr uhf n then acc @ [n] else acc) ns)"
  by (cases "pitch n") (auto simp: reads_pitch_def keeps_right_def)

lemma filter_left_hand_loop_Cons:
  "filter_left_hand_loop thr uhf acc (n # ns) =
     (if reads_pitch uhf n \<and> pitch n = None then Inl (KeyError ''pitch'')
      else filter_left_hand_loop thr uhf (if keeps_left thr uhf n then acc @ [n] else acc) ns)"
  by (cases "pitch n") (auto simp: reads_pitch_def keeps_left_def)

lemma filter_right_hand_loop_eq:
  "filter_right_hand_loop thr uhf acc ns =
     (if list_all (\<lambda>n. reads_pitch uhf n \<longrightarrow> pitch n \<noteq> None) ns
      then Inr (acc @ filter (keeps_right thr uhf) ns)
      else Inl (KeyError ''pitch''))"
  by (induction ns arbitrary: acc)
     (simp_all add: filter_right_hand_loop_Cons del: filter_right_hand_loop.simps(2))

lemma filter_left_hand_loop_eq:
  "filter_left_hand_loop thr uhf acc ns =
     (if list_all (\<lambda>n. reads_pitch uhf n \<longrightarrow> pitch n \<noteq> None) ns
      then Inr (acc @ filter (keeps_left thr uhf) ns)
      else Inl (KeyError ''pitch''))"
  by (induction ns arbitrary: acc)
     (simp_all add: filter_left_hand_loop_Cons del: filter_left_hand_loop.simps(2))

section \<open>Rounding to the nearest double\<close>


lemma round_half_even_of_int: "round_half_even (of_int n) = n"
  by (simp add: round_half_even_def)



lemma two_powr_of_int: "(2::real) powr of_int k = 2 powi k"
  by (simp add: powr_real_of_int')

lemma floor_log2_iff:
  assumes "0 < x"
  shows "(\<lfloor>log 2 x\<rfloor> = k) = (2 powi k \<le> x \<and> x < 2 powi (k + 1))"
proof -
  have "(\<lfloor>log 2 x\<rfloor> = k) = (2 powr of_int k \<le> x \<and> x < 2 powr of_int (k + 1))"
    by (rule floor_log_eq_powr_iff) (use assms in simp_all)
  then show ?thesis unfolding two_powr_of_int .
qed

lemma floor_log2_bounds:
  assumes "0 < x"
  shows "2 powi \<lfloor>log 2 x\<rfloor> \<le> x" and "x < 2 powi (\<lfloor>log 2 x\<rfloor> + 1)"
  using floor_log2_iff [OF assms, of "\<lfloor>log 2 x\<rfloor>"] by simp_all










lemma double_round_zero: "double_round 0 = 0"
  by (simp add: double_round_def)




lemma double_round_exact:
  assumes m: "\<bar>m\<bar> < 2 ^ 53" and j: "- 1074 \<le> j"
  shows "double_round (of_int m * 2 powi j) = of_int m * 2 powi j"
proof (cases "m = 0")
  case True
  then show ?thesis by (simp add: double_round_def)
next
  case False
  define x :: real where "x = of_int m * 2 powi j"
  define k where "k = double_exponent x"
  define u :: real where "u = 2 powi (k - 52)"
  have u: "0 < u" by (simp add: u_def)
  have x0: "x \<noteq> 0" using False by (simp add: x_def)
  then have pos: "0 < \<bar>x\<bar>" by simp
  have "\<bar>x\<bar> = of_int \<bar>m\<bar> * 2 powi j" by (simp add: x_def abs_mult)
  also have "\<dots> < of_int (2 ^ 53) * 2 powi j"
    using m by (intro mult_strict_right_mono) simp_all
  also have "\<dots> = 2 powi (53 + j)"
    by (simp add: power_int_add)
  finally have lt: "\<bar>x\<bar> < 2 powi (53 + j)" .
  have "\<lfloor>log 2 \<bar>x\<bar>\<rfloor> < 53 + j"
  proof (rule ccontr)
    assume "\<not> \<lfloor>log 2 \<bar>x\<bar>\<rfloor> < 53 + j"
    then have "(2::real) powi (53 + j) \<le> 2 powi \<lfloor>log 2 \<bar>x\<bar>\<rfloor>"
      by (intro power_int_increasing) simp_all
    with floor_log2_bounds(1) [OF pos] lt show False by linarith
  qed
  with j have kj: "k - 52 \<le> j"
    by (simp add: k_def double_exponent_def)
  define d where "d = nat (j - (k - 52))"
  have dj: "j = int d + (k - 52)" using kj by (simp add: d_def)
  have "(2::real) powi j = 2 powi (int d + (k - 52))"
    using dj by (rule arg_cong)
  also have "\<dots> = 2 ^ d * u"
    by (simp add: power_int_add u_def)
  finally have pj: "(2::real) powi j = 2 ^ d * u" .
  have xu: "x = of_int (m * 2 ^ d) * u"
    by (simp add: x_def pj)
  then have "x / u = of_int (m * 2 ^ d)"
    using u by simp
  then have "round_half_even (x / u) = m * 2 ^ d"
    by (simp only: round_half_even_of_int)
  moreover have "double_round x = of_int (round_half_even (x / u)) * u"
    using x0 by (simp only: double_round_def if_False k_def [symmetric] u_def [symmetric])
  ultimately have "double_round x = x"
    by (simp only: xu [symmetric])
  then show ?thesis by (simp only: x_def)
qed

lemma double_round_of_int:
  "\<bar>m\<bar> < 2 ^ 53 \<Longrightarrow> double_round (of_int m) = of_int m"
  using double_round_exact [of m 0] by simp

section \<open>Measure arithmetic\<close>

text \<open>
  C2. \<open>extract_measures\<close> extracts the beat range given by the conversion: with
  \<open>firstBeats\<close> the pickup beats when given and the beats per measure otherwise, the start
  beat is 0 for start measure 1 and \<open>firstBeats + (startMeasure - 2) * beatsPerMeasure\<close>
  otherwise; the end beat is \<open>firstBeats\<close> for end measure 1 and
  \<open>firstBeats + (endMeasure - 1) * beatsPerMeasure\<close> otherwise. The three boundary
  examples of the specification are the ranges (0,4), (4,8) and (0,14).
\<close>

theorem extract_measures_beat_range:
  "extract_measures ed start_measure end_measure beats_per_measure pickup_beats =
     extract_beats_internal ed
       (of_int (if start_measure = 1 then 0
                else (case pickup_beats of Some p \<Rightarrow> p | None \<Rightarrow> beats_per_measure)
                       + (start_measure - 2) * beats_per_measure))
       (of_int (if end_measure = 1 then (case pickup_beats of Some p \<Rightarrow> p | None \<Rightarrow> beats_per_measure)
                else (case pickup_beats of Some p \<Rightarrow> p | None \<Rightarrow> beats_per_measure)
                       + (end_measure - 1) * beats_per_measure))
       (measures_suffix start_measure end_measure)
   \<and> measure_beat_range start_measure end_measure beats_per_measure pickup_beats =
       ((if start_measure = 1 then 0
         else (case pickup_beats of Some p \<Rightarrow> p | None \<Rightarrow> beats_per_measure)
                + (start_measure - 2) * beats_per_measure),
        (if end_measure = 1 then (case pickup_beats of Some p \<Rightarrow> p | None \<Rightarrow> beats_per_measure)
         else (case pickup_beats of Some p \<Rightarrow> p | None \<Rightarrow> beats_per_measure)
                + (end_measure - 1) * beats_per_measure))
   \<and> extract_measures ed 1 1 4 None = extract_beats_internal ed 0 4 (measures_suffix 1 1)
   \<and> extract_measures ed 2 2 4 None = extract_beats_internal ed 4 8 (measures_suffix 2 2)
   \<and> extract_measures ed 1 4 4 (Some 2) = extract_beats_internal ed 0 14 (measures_suffix 1 4)"
  by (simp add: extract_measures_def measure_beat_range_def first_measure_beats_def Let_def)

text \<open>
  Measure 2 of the four-note example, four beats to the measure: the window is from beat
  4 to beat 8, so the notes at 3.5 and 8 are left out and the notes at 4 and 7.5 come
  out at 0 and 3.5.
\<close>

theorem extract_measures_beat_range_witness:
  "extract_measures around_bar_two 2 2 4 None
     = Inr \<lparr>song_title = Some (''Etude'' @ '' ('' @ measures_suffix 2 2 @ '')''), song_bpm = Some 96,
            song_notes = Some [note_at 60 0 (Some ''left''), note_at 62 3.5 None]\<rparr>
   \<and> extract_measures around_bar_two 3 8 3 (Some 2)
       = extract_beats_internal around_bar_two 5 23 (measures_suffix 3 8)"
proof -
  have d: "double_round (7 / 2) = 7 / 2"
    using double_round_exact [of 7 "- 1"] by simp
  have "extract_beats_internal around_bar_two 4 8 (measures_suffix 2 2)
     = Inr \<lparr>song_title = Some (''Etude'' @ '' ('' @ measures_suffix 2 2 @ '')''), song_bpm = Some 96,
            song_notes = Some [note_at 60 0 (Some ''left''), note_at 62 3.5 None]\<rparr>"
    by (simp add: extract_beats_internal_def around_bar_two_def SongEditor_def song_of_def
          note_at_def float_sub_def double_round_zero d)
  with extract_measures_beat_range [of around_bar_two 2 2 4 None]
    extract_measures_beat_range [of around_bar_two 3 8 3 "Some 2"]
  show ?thesis by simp
qed

lemma str_int_examples: "str_int 48 = ''48''" "str_int 72 = ''72''" "str_int 5 = ''5''" "str_int 3 = ''3''"
  by code_simp+

lemma case_sum_if:
  "(case (if c then Inr x else Inl e) of Inl e' \<Rightarrow> Inl e' | Inr y \<Rightarrow> Inr (f y))
     = (if c then Inr (f x) else Inl e)"
  by simp

section \<open>Hand filters with the hand field in use\<close>

text \<open>
  C1 (as amended). With \<open>use_hand_field\<close> set, a note that carries a \<open>hand\<close> key is
  kept by \<open>filter_right_hand\<close> iff the key is \<open>right\<close> (by \<open>filter_left_hand\<close> iff it is
  \<open>left\<close>); a note without the key falls back to its pitch: it is kept by the right-hand
  filter iff its pitch is at least the threshold, by the left-hand filter iff its pitch
  is below it. The filter raises \<open>KeyError\<close> exactly when some note has neither key.
\<close>

theorem hand_field_mode_filters:
  "filter_right_hand ed thr True =
     (if \<forall>n \<in> set (self_notes ed). hand n = None \<longrightarrow> pitch n \<noteq> None
      then Inr \<lparr>song_title = Some (self_title ed @ right_hand_suffix),
                song_bpm = Some (self_bpm ed),
                song_notes = Some (filter (\<lambda>n. case hand n of
                                                 Some h \<Rightarrow> h = ''right''
                                               | None \<Rightarrow> (case pitch n of None \<Rightarrow> False | Some p \<Rightarrow> thr \<le> p))
                                     (self_notes ed))\<rparr>
      else Inl (KeyError ''pitch''))
   \<and> filter_left_hand ed thr True =
     (if \<forall>n \<in> set (self_notes ed). hand n = None \<longrightarrow> pitch n \<noteq> None
      then Inr \<lparr>song_title = Some (self_title ed @ left_hand_suffix),
                song_bpm = Some (self_bpm ed),
                song_notes = Some (filter (\<lambda>n. case hand n of
                                                 Some h \<Rightarrow> h = ''left''
                                               | None \<Rightarrow> (case pitch n of None \<Rightarrow> False | Some p \<Rightarrow> p < thr))
                                     (self_notes ed))\<rparr>
      else Inl (KeyError ''pitch''))"
proof -
  have r: "keeps_right thr True = (\<lambda>n. case hand n of
                                                 Some h \<Rightarrow> h = ''right''
                                               | None \<Rightarrow> (case pitch n of None \<Rightarrow> False | Some p \<Rightarrow> thr \<le> p))"
    by (rule ext) (simp add: keeps_right_def split: option.splits)
  have l: "keeps_left thr True = (\<lambda>n. case hand n of
                                                 Some h \<Rightarrow> h = ''left''
                                               | None \<Rightarrow> (case pitch n of None \<Rightarrow> False | Some p \<Rightarrow> p < thr))"
    by (rule ext) (simp add: keeps_left_def split: option.splits)
  have c: "list_all (\<lambda>n. reads_pitch True n \<longrightarrow> pitch n \<noteq> None) (self_notes ed)
           = (\<forall>n \<in> set (self_notes ed). hand n = None \<longrightarrow> pitch n \<noteq> None)"
    unfolding list_all_iff reads_pitch_def by blast
  show ?thesis
    unfolding filter_right_hand_def filter_left_hand_def
      filter_right_hand_loop_eq filter_left_hand_loop_eq c r l
      case_sum_if append_Nil
    by (rule conjI; rule refl)
qed

theorem hand_field_mode_filters_witness:
  "filter_right_hand (SongEditor (song_of [note_at 70 0 (Some ''right''), note_at 50 1 None, note_at 64 2 None])) 60 True
     = Inr \<lparr>song_title = Some (''Etude'' @ right_hand_suffix), song_bpm = Some 96,
            song_notes = Some [note_at 70 0 (Some ''right''), note_at 64 2 None]\<rparr>"
  using hand_field_mode_filters [of "SongEditor (song_of [note_at 70 0 (Some ''right''), note_at 50 1 None, note_at 64 2 None])" 60]
  by (simp add: SongEditor_def song_of_def note_at_def)

text \<open>
  The specification's example for C1: one note marked \<open>left\<close> at pitch 70 and one note
  without a \<open>hand\<close> key at pitch 70, threshold 60. The unmarked note is kept, so the
  result has one note, not zero.
\<close>

theorem right_hand_unmarked_note_counterexample:
  "filter_right_hand (SongEditor (song_of [note_at 70 0 (Some ''left''), note_at 70 0 None])) 60 True
     = Inr \<lparr>song_title = Some (''Etude'' @ right_hand_suffix), song_bpm = Some 96,
            song_notes = Some [note_at 70 0 None]\<rparr>"
  by (simp add: filter_right_hand_def SongEditor_def song_of_def note_at_def)

section \<open>Pitch filter\<close>

text \<open>
  C9. \<open>filter_by_pitch\<close> keeps exactly the notes whose pitch is at least \<open>min_pitch\<close>
  (when given) and at most \<open>max_pitch\<close> (when given), both bounds inclusive, an absent
  bound imposing nothing; the kept notes are the input notes themselves, in order, so
  their beats and other fields are untouched. (The result exists when every note has a
  pitch; otherwise reading the pitch raises \<open>KeyError\<close>.)
\<close>

theorem filter_by_pitch_keeps_range:
  "filter_by_pitch ed min_pitch max_pitch =
     (if \<forall>n \<in> set (self_notes ed). pitch n \<noteq> None
      then Inr \<lparr>song_title = Some (pitch_title (self_title ed) min_pitch max_pitch),
                song_bpm = Some (self_bpm ed),
                song_notes = Some (filter (\<lambda>n. \<exists>p. pitch n = Some p
                                               \<and> (\<forall>lo. min_pitch = Some lo \<longrightarrow> lo \<le> p)
                                               \<and> (\<forall>hi. max_pitch = Some hi \<longrightarrow> p \<le> hi))
                                     (self_notes ed))\<rparr>
      else Inl (KeyError ''pitch''))"
proof -
  have r: "pitch_in_range min_pitch max_pitch =
             (\<lambda>n. \<exists>p. pitch n = Some p
                     \<and> (\<forall>lo. min_pitch = Some lo \<longrightarrow> lo \<le> p)
                     \<and> (\<forall>hi. max_pitch = Some hi \<longrightarrow> p \<le> hi))"
    by (rule ext) (simp add: pitch_in_range_def split: option.splits)
  have c: "list_all (\<lambda>n. pitch n \<noteq> None) (self_notes ed)
             = (\<forall>n \<in> set (self_notes ed). pitch n \<noteq> None)"
    by (rule list_all_iff)
  have loop: "filter_by_pitch_loop min_pitch max_pitch [] (self_notes ed) =
                (if list_all (\<lambda>n. pitch n \<noteq> None) (self_notes ed)
                 then Inr ([] @ filter (pitch_in_range min_pitch max_pitch) (self_notes ed))
                 else Inl (KeyError ''pitch''))"
  proof (cases "list_all (\<lambda>n. pitch n \<noteq> None) (self_notes ed)")
    case True
    from filter_by_pitch_loop_ok [OF True] show ?thesis by (simp only: True if_True)
  next
    case False
    from filter_by_pitch_loop_fail [OF False] show ?thesis by (simp only: False if_False)
  qed
  show ?thesis
    unfolding filter_by_pitch_def loop c r case_sum_if append_Nil
    by (rule refl)
qed

text \<open>With bounds 48 and 72, the notes at 48 and 72 are kept, those at 47 and 73 are not.\<close>

theorem filter_by_pitch_keeps_range_witness:
  "filter_by_pitch (SongEditor (song_of [note_at 47 0 None, note_at 48 1 None, note_at 72 2 None, note_at 73 3 None]))
       (Some 48) (Some 72)
     = Inr \<lparr>song_title = Some (''Etude ('' @ [CHR 0xE2, CHR 0x89, CHR 0xA5] @ ''48, '' @ [CHR 0xE2, CHR 0x89, CHR 0xA4] @ ''72)''),
            song_bpm = Some 96,
            song_notes = Some [note_at 48 1 None, note_at 72 2 None]\<rparr>"
  using filter_by_pitch_keeps_range
    [of "SongEditor (song_of [note_at 47 0 None, note_at 48 1 None, note_at 72 2 None, note_at 73 3 None])" "Some 48" "Some 72"]
  by (simp add: SongEditor_def song_of_def note_at_def pitch_title_def pitch_title_suffix_def str_int_examples)

section \<open>The two hand filters partition the notes\<close>

lemma keeps_left_complement:
  assumes "hand n = None \<or> hand n = Some ''left'' \<or> hand n = Some ''right''"
    and "reads_pitch uhf n \<longrightarrow> pitch n \<noteq> None"
  shows "keeps_left thr uhf n = (\<not> keeps_right thr uhf n)"
proof (cases "reads_pitch uhf n")
  case True
  with assms(2) obtain p where "pitch n = Some p" by auto
  with True show ?thesis
    by (auto simp: keeps_left_def keeps_right_def reads_pitch_def)
next
  case False
  with assms(1) show ?thesis
    by (auto simp: keeps_left_def keeps_right_def reads_pitch_def)
qed

text \<open>
  C10. For a song whose \<open>hand\<close> keys, where present, are \<open>left\<close> or \<open>right\<close> (and whose
  notes have a pitch wherever the filters read it), for every threshold and either value
  of \<open>use_hand_field\<close>: both filters return, and there is a predicate \<open>P\<close> on notes such
  that the right-hand result is the notes satisfying \<open>P\<close> and the left-hand result the
  notes not satisfying it, each in input order. So every note, with its multiplicity,
  is in exactly one of the two results.
\<close>

theorem hand_filters_partition:
  assumes hands: "\<forall>n \<in> set (self_notes ed).
                    hand n = None \<or> hand n = Some ''left'' \<or> hand n = Some ''right''"
    and pitches: "\<forall>n \<in> set (self_notes ed). (use_hand_field \<longrightarrow> hand n = None) \<longrightarrow> pitch n \<noteq> None"
  shows "\<exists>R L P. filter_right_hand ed threshold use_hand_field = Inr R
               \<and> filter_left_hand ed threshold use_hand_field = Inr L
               \<and> song_notes R = Some (filter P (self_notes ed))
               \<and> song_notes L = Some (filter (\<lambda>n. \<not> P n) (self_notes ed))
               \<and> mset (filter P (self_notes ed)) + mset (filter (\<lambda>n. \<not> P n) (self_notes ed))
                   = mset (self_notes ed)"
proof -
  let ?ns = "self_notes ed"
  let ?P = "keeps_right threshold use_hand_field"
  have "\<And>n. reads_pitch use_hand_field n = (use_hand_field \<longrightarrow> hand n = None)"
    unfolding reads_pitch_def by (rule iffI; simp)
  with pitches have reads: "\<forall>n \<in> set ?ns. reads_pitch use_hand_field n \<longrightarrow> pitch n \<noteq> None"
    by (simp only:)
  then have ok: "list_all (\<lambda>n. reads_pitch use_hand_field n \<longrightarrow> pitch n \<noteq> None) ?ns"
    unfolding list_all_iff .
  have "\<forall>n \<in> set ?ns. keeps_left threshold use_hand_field n = (\<not> ?P n)"
    using hands reads keeps_left_complement by blast
  then have left: "filter (keeps_left threshold use_hand_field) ?ns = filter (\<lambda>n. \<not> ?P n) ?ns"
    by (intro filter_cong) simp_all
  have r: "filter_right_hand_loop threshold use_hand_field [] ?ns = Inr (filter ?P ?ns)"
    using ok by (simp only: filter_right_hand_loop_eq if_True append_Nil)
  have l: "filter_left_hand_loop threshold use_hand_field [] ?ns = Inr (filter (\<lambda>n. \<not> ?P n) ?ns)"
    using ok left by (simp only: filter_left_hand_loop_eq if_True append_Nil)
  define R where "R = \<lparr>song_title = Some (self_title ed @ right_hand_suffix),
                         song_bpm = Some (self_bpm ed), song_notes = Some (filter ?P ?ns)\<rparr>"
  define L where "L = \<lparr>song_title = Some (self_title ed @ left_hand_suffix),
                         song_bpm = Some (self_bpm ed),
                         song_notes = Some (filter (\<lambda>n. \<not> ?P n) ?ns)\<rparr>"
  have fr: "filter_right_hand ed threshold use_hand_field = Inr R"
    by (simp add: filter_right_hand_def r R_def)
  have fl: "filter_left_hand ed threshold use_hand_field = Inr L"
    by (simp add: filter_left_hand_def l L_def)
  have sr: "song_notes R = Some (filter ?P ?ns)"
    by (simp add: R_def)
  have sl: "song_notes L = Some (filter (\<lambda>n. \<not> ?P n) ?ns)"
    by (simp add: L_def)
  have m: "mset (filter ?P ?ns) + mset (filter (\<lambda>n. \<not> ?P n) ?ns) = mset ?ns"
    by simp
  from fr fl sr sl m show ?thesis by blast
qed

theorem hand_filters_partition_witness:
  "filter_right_hand mixed_hands 60 True
     = Inr \<lparr>song_title = Some (''Etude'' @ right_hand_suffix), song_bpm = Some 96,
            song_notes = Some [note_at 70 0 (Some ''right''), note_at 64 2 None]\<rparr>
   \<and> filter_left_hand mixed_hands 60 True
     = Inr \<lparr>song_title = Some (''Etude'' @ left_hand_suffix), song_bpm = Some 96,
            song_notes = Some [note_at 40 1 (Some ''left''), note_at 50 3 None]\<rparr>
   \<and> (\<exists>R L P. filter_right_hand mixed_hands 60 True = Inr R
               \<and> filter_left_hand mixed_hands 60 True = Inr L
               \<and> song_notes R = Some (filter P (self_notes mixed_hands))
               \<and> song_notes L = Some (filter (\<lambda>n. \<not> P n) (self_notes mixed_hands))
               \<and> mset (filter P (self_notes mixed_hands))
                   + mset (filter (\<lambda>n. \<not> P n) (self_notes mixed_hands))
                   = mset (self_notes mixed_hands))"
proof -
  have h1: "\<forall>n \<in> set (self_notes mixed_hands).
              hand n = None \<or> hand n = Some ''left'' \<or> hand n = Some ''right''"
    by (simp add: mixed_hands_def SongEditor_def song_of_def note_at_def)
  have h2: "\<forall>n \<in> set (self_notes mixed_hands). (True \<longrightarrow> hand n = None) \<longrightarrow> pitch n \<noteq> None"
    by (simp add: mixed_hands_def SongEditor_def song_of_def note_at_def)
  have r: "filter_right_hand mixed_hands 60 True
     = Inr \<lparr>song_title = Some (''Etude'' @ right_hand_suffix), song_bpm = Some 96,
            song_notes = Some [note_at 70 0 (Some ''right''), note_at 64 2 None]\<rparr>"
    by (simp add: filter_right_hand_def mixed_hands_def SongEditor_def song_of_def note_at_def)
  have l: "filter_left_hand mixed_hands 60 True
     = Inr \<lparr>song_title = Some (''Etude'' @ left_hand_suffix), song_bpm = Some 96,
            song_notes = Some [note_at 40 1 (Some ''left''), note_at 50 3 None]\<rparr>"
    by (simp add: filter_left_hand_def mixed_hands_def SongEditor_def song_of_def note_at_def)
  from r l hand_filters_partition [OF h1 h2, of 60] show ?thesis
    by (intro conjI)
qed

section \<open>Beat-range extraction\<close>






section \<open>Beat order\<close>




lemma filter_by_pitch_loop_eq:
  "filter_by_pitch_loop mn mx acc ns =
     (if list_all (\<lambda>n. pitch n \<noteq> None) ns
      then Inr (acc @ filter (pitch_in_range mn mx) ns)
      else Inl (KeyError ''pitch''))"
proof (cases "list_all (\<lambda>n. pitch n \<noteq> None) ns")
  case True
  from filter_by_pitch_loop_ok [OF True] show ?thesis by (simp only: True if_True)
next
  case False
  from filter_by_pitch_loop_fail [OF False] show ?thesis by (simp only: False if_False)
qed






section \<open>Applying a filter to its own output\<close>

lemma list_all_filter_sub: "list_all Q ns \<Longrightarrow> list_all Q (filter P ns)"
  by (simp add: list_all_iff)

lemma filter_by_pitch_again:
  assumes "filter_by_pitch ed mn mx = Inr r"
  shows "filter_by_pitch (SongEditor r) mn mx
           = Inr \<lparr>song_title = Some (pitch_title (pitch_title (self_title ed) mn mx) mn mx),
                  song_bpm = song_bpm r, song_notes = song_notes r\<rparr>"
proof -
  let ?kept = "filter (pitch_in_range mn mx) (self_notes ed)"
  from assms have ok: "list_all (\<lambda>n. pitch n \<noteq> None) (self_notes ed)"
    and r: "r = \<lparr>song_title = Some (pitch_title (self_title ed) mn mx),
                 song_bpm = Some (self_bpm ed), song_notes = Some ?kept\<rparr>"
    unfolding filter_by_pitch_def filter_by_pitch_loop_eq by (auto split: if_splits)
  have "filter_by_pitch_loop mn mx [] ?kept = Inr (filter (pitch_in_range mn mx) ?kept)"
    using list_all_filter_sub [OF ok] by (simp only: filter_by_pitch_loop_eq if_True append_Nil)
  then show ?thesis
    by (simp add: filter_by_pitch_def SongEditor_def r)
qed

lemma filter_right_hand_again:
  assumes "filter_right_hand ed thr uhf = Inr r"
  shows "filter_right_hand (SongEditor r) thr uhf
           = Inr \<lparr>song_title = Some (self_title ed @ right_hand_suffix @ right_hand_suffix),
                  song_bpm = song_bpm r, song_notes = song_notes r\<rparr>"
proof -
  let ?kept = "filter (keeps_right thr uhf) (self_notes ed)"
  from assms have ok: "list_all (\<lambda>n. reads_pitch uhf n \<longrightarrow> pitch n \<noteq> None) (self_notes ed)"
    and r: "r = \<lparr>song_title = Some (self_title ed @ right_hand_suffix),
                 song_bpm = Some (self_bpm ed), song_notes = Some ?kept\<rparr>"
    unfolding filter_right_hand_def filter_right_hand_loop_eq by (auto split: if_splits)
  have "filter_right_hand_loop thr uhf [] ?kept = Inr (filter (keeps_right thr uhf) ?kept)"
    using list_all_filter_sub [OF ok] by (simp only: filter_right_hand_loop_eq if_True append_Nil)
  then show ?thesis
    by (simp add: filter_right_hand_def SongEditor_def r)
qed

lemma filter_left_hand_again:
  assumes "filter_left_hand ed thr uhf = Inr r"
  shows "filter_left_hand (SongEditor r) thr uhf
           = Inr \<lparr>song_title = Some (self_title ed @ left_hand_suffix @ left_hand_suffix),
                  song_bpm = song_bpm r, song_notes = song_notes r\<rparr>"
proof -
  let ?kept = "filter (keeps_left thr uhf) (self_notes ed)"
  from assms have ok: "list_all (\<lambda>n. reads_pitch uhf n \<longrightarrow> pitch n \<noteq> None) (self_notes ed)"
    and r: "r = \<lparr>song_title = Some (self_title ed @ left_hand_suffix),
                 song_bpm = Some (self_bpm ed), song_notes = Some ?kept\<rparr>"
    unfolding filter_left_hand_def filter_left_hand_loop_eq by (auto split: if_splits)
  have "filter_left_hand_loop thr uhf [] ?kept = Inr (filter (keeps_left thr uhf) ?kept)"
    using list_all_filter_sub [OF ok] by (simp only: filter_left_hand_loop_eq if_True append_Nil)
  then show ?thesis
    by (simp add: filter_left_hand_def SongEditor_def r)
qed

text \<open>
  C7 (as amended). Each filter applied to its own output returns the same notes and the
  same tempo as the first application, and the title with the filter's annotation
  appended once more: \<open>filter_right_hand\<close> and \<open>filter_left_hand\<close> always append theirs,
  \<open>filter_by_pitch\<close> appends one unless both bounds are absent, in which case the second
  result equals the first.
\<close>

theorem filters_idempotent_on_notes:
  "(\<forall>r. filter_by_pitch ed min_pitch max_pitch = Inr r \<longrightarrow>
        filter_by_pitch (SongEditor r) min_pitch max_pitch
          = Inr \<lparr>song_title = Some (pitch_title (pitch_title (self_title ed) min_pitch max_pitch)
                                      min_pitch max_pitch),
                 song_bpm = song_bpm r, song_notes = song_notes r\<rparr>)
   \<and> (\<forall>r. filter_by_pitch ed None None = Inr r \<longrightarrow> filter_by_pitch (SongEditor r) None None = Inr r)
   \<and> (\<forall>r. filter_right_hand ed threshold use_hand_field = Inr r \<longrightarrow>
        filter_right_hand (SongEditor r) threshold use_hand_field
          = Inr \<lparr>song_title = Some (self_title ed @ right_hand_suffix @ right_hand_suffix),
                 song_bpm = song_bpm r, song_notes = song_notes r\<rparr>)
   \<and> (\<forall>r. filter_left_hand ed threshold use_hand_field = Inr r \<longrightarrow>
        filter_left_hand (SongEditor r) threshold use_hand_field
          = Inr \<lparr>song_title = Some (self_title ed @ left_hand_suffix @ left_hand_suffix),
                 song_bpm = song_bpm r, song_notes = song_notes r\<rparr>)"
proof (intro conjI allI impI)
  fix r
  assume a: "filter_by_pitch ed None None = Inr r"
  then have "song_title r = Some (self_title ed)"
    unfolding filter_by_pitch_def filter_by_pitch_loop_eq
    by (auto simp: pitch_title_def pitch_title_suffix_def split: if_splits)
  with filter_by_pitch_again [OF a] show "filter_by_pitch (SongEditor r) None None = Inr r"
    by (simp add: pitch_title_def pitch_title_suffix_def)
qed (rule filter_by_pitch_again filter_right_hand_again filter_left_hand_again; assumption)+

text \<open>
  C7 as stated fails on the title: the right-hand filter on the four-note example with
  threshold 60 gives a song titled \<open>Etude\<close> with one annotation, and the filter applied to
  that song gives the same two notes under a title with two annotations.
\<close>

theorem right_hand_twice_counterexample:
  "filter_right_hand mixed_hands 60 True
     = Inr \<lparr>song_title = Some (''Etude'' @ right_hand_suffix), song_bpm = Some 96,
            song_notes = Some [note_at 70 0 (Some ''right''), note_at 64 2 None]\<rparr>
   \<and> filter_right_hand (SongEditor \<lparr>song_title = Some (''Etude'' @ right_hand_suffix), song_bpm = Some 96,
            song_notes = Some [note_at 70 0 (Some ''right''), note_at 64 2 None]\<rparr>) 60 True
     = Inr \<lparr>song_title = Some (''Etude'' @ right_hand_suffix @ right_hand_suffix), song_bpm = Some 96,
            song_notes = Some [note_at 70 0 (Some ''right''), note_at 64 2 None]\<rparr>
   \<and> Inr \<lparr>song_title = Some (''Etude'' @ right_hand_suffix @ right_hand_suffix), song_bpm = Some 96,
            song_notes = Some [note_at 70 0 (Some ''right''), note_at 64 2 None]\<rparr>
     \<noteq> filter_right_hand mixed_hands 60 True"
  by (simp add: filter_right_hand_def mixed_hands_def SongEditor_def song_of_def note_at_def
        right_hand_suffix_def)

text \<open>The left-hand filter on the same example, applied once and then to its own output.\<close>

theorem filters_idempotent_on_notes_witness:
  "filter_left_hand mixed_hands 60 True
     = Inr \<lparr>song_title = Some (''Etude'' @ left_hand_suffix), song_bpm = Some 96,
            song_notes = Some [note_at 40 1 (Some ''left''), note_at 50 3 None]\<rparr>
   \<and> filter_left_hand (SongEditor \<lparr>song_title = Some (''Etude'' @ left_hand_suffix), song_bpm = Some 96,
            song_notes = Some [note_at 40 1 (Some ''left''), note_at 50 3 None]\<rparr>) 60 True
     = Inr \<lparr>song_title = Some (''Etude'' @ left_hand_suffix @ left_hand_suffix), song_bpm = Some 96,
            song_notes = Some [note_at 40 1 (Some ''left''), note_at 50 3 None]\<rparr>"
proof -
  have t: "self_title mixed_hands = ''Etude''"
    by (simp add: mixed_hands_def SongEditor_def song_of_def)
  have v: "filter_left_hand mixed_hands 60 True
     = Inr \<lparr>song_title = Some (''Etude'' @ left_hand_suffix), song_bpm = Some 96,
            song_notes = Some [note_at 40 1 (Some ''left''), note_at 50 3 None]\<rparr>"
    by (simp add: filter_left_hand_def mixed_hands_def SongEditor_def song_of_def note_at_def)
  from filters_idempotent_on_notes [of mixed_hands None None 60 True] v
  have "filter_left_hand (SongEditor \<lparr>song_title = Some (''Etude'' @ left_hand_suffix), song_bpm = Some 96,
            song_notes = Some [note_at 40 1 (Some ''left''), note_at 50 3 None]\<rparr>) 60 True
     = Inr \<lparr>song_title = Some (self_title mixed_hands @ left_hand_suffix @ left_hand_suffix),
            song_bpm = song_bpm \<lparr>song_title = Some (''Etude'' @ left_hand_suffix), song_bpm = Some 96,
            song_notes = Some [note_at 40 1 (Some ''left''), note_at 50 3 None]\<rparr>,
            song_notes = song_notes \<lparr>song_title = Some (''Etude'' @ left_hand_suffix), song_bpm = Some 96,
            song_notes = Some [note_at 40 1 (Some ''left''), note_at 50 3 None]\<rparr>\<rparr>"
    by blast
  then show ?thesis using v t by simp
qed

section \<open>Loading\<close>

text \<open>
  C5 (as amended). \<open>load_json\<close> returns the parsed document as it is, and \<open>SongEditor\<close>
  fills in defaults at the song level only: title \<open>Untitled\<close>, bpm 120, an empty note list.
  The notes are taken over unchanged, so a note that omits \<open>velocity\<close> or \<open>hand\<close> has neither
  in memory: the \<open>velocity\<close> and \<open>hand\<close> entries of the editor's notes are those of the document.
\<close>

theorem load_defaults_song_level_only:
  "load_json (Document d) = Inr d
   \<and> self_song_data (SongEditor d) = d
   \<and> self_title (SongEditor d) = (case song_title d of None \<Rightarrow> ''Untitled'' | Some t \<Rightarrow> t)
   \<and> self_bpm (SongEditor d) = (case song_bpm d of None \<Rightarrow> 120 | Some b \<Rightarrow> b)
   \<and> self_notes (SongEditor d) = (case song_notes d of None \<Rightarrow> [] | Some ns \<Rightarrow> ns)
   \<and> map velocity (self_notes (SongEditor d)) = map velocity (case song_notes d of None \<Rightarrow> [] | Some ns \<Rightarrow> ns)
   \<and> map hand (self_notes (SongEditor d)) = map hand (case song_notes d of None \<Rightarrow> [] | Some ns \<Rightarrow> ns)"
  by (simp add: load_json_def SongEditor_def)

text \<open>
  C5 as stated fails on the notes: in a document without title and bpm whose single note
  has no \<open>velocity\<close> and no \<open>hand\<close>, the song-level defaults appear, the note keeps both keys
  absent, and neither 80 nor \<open>right\<close> is filled in.
\<close>

theorem loaded_note_without_velocity_counterexample:
  "load_json (Document untitled_song) = Inr untitled_song
   \<and> self_title (SongEditor untitled_song) = ''Untitled''
   \<and> self_bpm (SongEditor untitled_song) = 120
   \<and> map velocity (self_notes (SongEditor untitled_song)) = [None]
   \<and> map hand (self_notes (SongEditor untitled_song)) = [None]
   \<and> map velocity (self_notes (SongEditor untitled_song)) \<noteq> [Some 80]
   \<and> map hand (self_notes (SongEditor untitled_song)) \<noteq> [Some ''right'']"
  by (simp add: load_json_def SongEditor_def untitled_song_def note_at_def)

section \<open>Running the command line\<close>



















section \<open>A range given in reverse\<close>









end
